theory Spec2Isabelle
  imports Main
begin

section \<open>The Wikipedia tool server: data model\<close>

text \<open>
  The program (\<^verbatim>\<open>src/main.py\<close>) registers thirteen tools. Each tool takes one
  validated request record, evaluates one expression over the \<^verbatim>\<open>wikipedia\<close>
  client library inside a \<^verbatim>\<open>try\<close>, and either returns a small dictionary or
  raises \<^verbatim>\<open>ToolError\<close>.

  The client library is not part of the program, so it is a parameter of the model
  (the record \<open>provider\<close> below): every theorem holds for every behaviour of the
  library. Everything the program does with it is kept: which function is called, on
  which argument, which exception classes are caught by which handler, and what is
  returned.
\<close>

subsection \<open>JSON values and result dictionaries\<close>

datatype json =
    JNull
  | JBool bool
  | JNum int
  | JStr string
  | JArr "json list"
  | JObj "(string \<times> json) list"

text \<open>A returned Python \<^verbatim>\<open>dict\<close> literal, keys in the order they are written.\<close>

type_synonym result = "(string \<times> json) list"

text \<open>A Python list of strings as a JSON array.\<close>

definition str_list :: "string list \<Rightarrow> json" where
  "str_list xs = JArr (map JStr xs)"

subsection \<open>Exceptions\<close>

text \<open>
  The exception classes the handlers tell apart. Every constructor carries the text
  that \<^verbatim>\<open>str(e)\<close> yields; \<open>DisambiguationError\<close> also carries its
  \<^verbatim>\<open>options\<close> attribute. \<open>OtherException\<close> is any other instance of
  \<^verbatim>\<open>Exception\<close> (a timeout, a redirect error, a network failure, ...).
  Signals that are not instances of \<^verbatim>\<open>Exception\<close> (\<^verbatim>\<open>KeyboardInterrupt\<close>,
  \<^verbatim>\<open>SystemExit\<close>) are not raised by the library and are outside the model.
\<close>

datatype exn =
    PageError string
  | DisambiguationError string "string list"
  | OtherException string
  | ToolError string

fun str :: "exn \<Rightarrow> string" where
  "str (PageError m) = m"
| "str (DisambiguationError m opts) = m"
| "str (OtherException m) = m"
| "str (ToolError m) = m"

fun is_PageError :: "exn \<Rightarrow> bool" where
  "is_PageError (PageError m) = True"
| "is_PageError e = False"

fun is_DisambiguationError :: "exn \<Rightarrow> bool" where
  "is_DisambiguationError (DisambiguationError m opts) = True"
| "is_DisambiguationError e = False"

fun is_ToolError :: "exn \<Rightarrow> bool" where
  "is_ToolError (ToolError m) = True"
| "is_ToolError e = False"

text \<open>How a tool body ends: it returns its dictionary or it raises.\<close>

datatype outcome = Return result | Raise exn

subsection \<open>The provider\<close>

text \<open>
  The object \<^verbatim>\<open>wikipedia.page(title)\<close> returns. The program reads one attribute
  of it, or calls its \<^verbatim>\<open>html()\<close> method, inside the \<^verbatim>\<open>try\<close>; an
  attribute of the library may compute (and so raise) when it is read, hence every
  attribute is a value or an exception.
\<close>

record WikipediaPage =
  content :: "exn + string"
  html :: "exn + string"
  images :: "exn + string list"
  links :: "exn + string list"
  references :: "exn + string list"
  categories :: "exn + string list"
  url :: "exn + string"
  title :: "exn + string"
  pageid :: "exn + string"

text \<open>The three module functions of the library that the program calls.\<close>

record provider =
  wikipedia_summary :: "string \<Rightarrow> exn + string"
  wikipedia_page :: "string \<Rightarrow> exn + WikipediaPage"
  wikipedia_search :: "string \<Rightarrow> exn + string list"

text \<open>
  Every call the program makes on the library is recorded, in order: the three module
  functions with their argument, and the method call \<^verbatim>\<open>.html()\<close> on a page
  object. Reading an attribute is not a call in the program text and is not recorded.
\<close>

datatype call =
    Summary_call string
  | Page_call string
  | Search_call string
  | Html_call

type_synonym calls = "call list"

definition call_summary :: "provider \<Rightarrow> string \<Rightarrow> calls \<Rightarrow> (exn + string) \<times> calls" where
  "call_summary prov t cs = (wikipedia_summary prov t, cs @ [Summary_call t])"

definition call_page :: "provider \<Rightarrow> string \<Rightarrow> calls \<Rightarrow> (exn + WikipediaPage) \<times> calls" where
  "call_page prov t cs = (wikipedia_page prov t, cs @ [Page_call t])"

definition call_search :: "provider \<Rightarrow> string \<Rightarrow> calls \<Rightarrow> (exn + string list) \<times> calls" where
  "call_search prov q cs = (wikipedia_search prov q, cs @ [Search_call q])"

definition call_html :: "WikipediaPage \<Rightarrow> calls \<Rightarrow> (exn + string) \<times> calls" where
  "call_html p cs = (html p, cs @ [Html_call])"

subsection \<open>Input schemas\<close>

record WikipediaPageInput =
  page :: string

record WikipediaSearchInput =
  query :: string

section \<open>The tools\<close>

text \<open>
  Each definition follows its function in \<^verbatim>\<open>src/main.py\<close>: the expression
  in the \<^verbatim>\<open>try\<close> is evaluated left to right, the first exception leaves it,
  and \<^verbatim>\<open>except Exception as e\<close> turns it into
  \<^verbatim>\<open>ToolError(f"<label>: {str(e)}")\<close>.
\<close>

definition get_summary :: "provider \<Rightarrow> WikipediaPageInput \<Rightarrow> calls \<Rightarrow> outcome \<times> calls" where
  "get_summary prov inp cs =
     (case call_summary prov (page inp) cs of
        (Inr s, cs') \<Rightarrow> (Return [(''summary'', JStr s)], cs')
      | (Inl e, cs') \<Rightarrow> (Raise (ToolError (''Summary error: '' @ str e)), cs'))"

definition get_content :: "provider \<Rightarrow> WikipediaPageInput \<Rightarrow> calls \<Rightarrow> outcome \<times> calls" where
  "get_content prov inp cs =
     (case call_page prov (page inp) cs of
        (Inr p, cs') \<Rightarrow>
          (case content p of
             Inr v \<Rightarrow> (Return [(''content'', JStr v)], cs')
           | Inl e \<Rightarrow> (Raise (ToolError (''Content error: '' @ str e)), cs'))
      | (Inl e, cs') \<Rightarrow> (Raise (ToolError (''Content error: '' @ str e)), cs'))"

definition get_html :: "provider \<Rightarrow> WikipediaPageInput \<Rightarrow> calls \<Rightarrow> outcome \<times> calls" where
  "get_html prov inp cs =
     (case call_page prov (page inp) cs of
        (Inr p, cs') \<Rightarrow>
          (case call_html p cs' of
             (Inr v, cs'') \<Rightarrow> (Return [(''html'', JStr v)], cs'')
           | (Inl e, cs'') \<Rightarrow> (Raise (ToolError (''HTML error: '' @ str e)), cs''))
      | (Inl e, cs') \<Rightarrow> (Raise (ToolError (''HTML error: '' @ str e)), cs'))"

definition get_images :: "provider \<Rightarrow> WikipediaPageInput \<Rightarrow> calls \<Rightarrow> outcome \<times> calls" where
  "get_images prov inp cs =
     (case call_page prov (page inp) cs of
        (Inr p, cs') \<Rightarrow>
          (case images p of
             Inr v \<Rightarrow> (Return [(''images'', str_list v)], cs')
           | Inl e \<Rightarrow> (Raise (ToolError (''Images error: '' @ str e)), cs'))
      | (Inl e, cs') \<Rightarrow> (Raise (ToolError (''Images error: '' @ str e)), cs'))"

definition get_links :: "provider \<Rightarrow> WikipediaPageInput \<Rightarrow> calls \<Rightarrow> outcome \<times> calls" where
  "get_links prov inp cs =
     (case call_page prov (page inp) cs of
        (Inr p, cs') \<Rightarrow>
          (case links p of
             Inr v \<Rightarrow> (Return [(''links'', str_list v)], cs')
           | Inl e \<Rightarrow> (Raise (ToolError (''Links error: '' @ str e)), cs'))
      | (Inl e, cs') \<Rightarrow> (Raise (ToolError (''Links error: '' @ str e)), cs'))"

definition get_references :: "provider \<Rightarrow> WikipediaPageInput \<Rightarrow> calls \<Rightarrow> outcome \<times> calls" where
  "get_references prov inp cs =
     (case call_page prov (page inp) cs of
        (Inr p, cs') \<Rightarrow>
          (case references p of
             Inr v \<Rightarrow> (Return [(''references'', str_list v)], cs')
           | Inl e \<Rightarrow> (Raise (ToolError (''References error: '' @ str e)), cs'))
      | (Inl e, cs') \<Rightarrow> (Raise (ToolError (''References error: '' @ str e)), cs'))"

definition get_categories :: "provider \<Rightarrow> WikipediaPageInput \<Rightarrow> calls \<Rightarrow> outcome \<times> calls" where
  "get_categories prov inp cs =
     (case call_page prov (page inp) cs of
        (Inr p, cs') \<Rightarrow>
          (case categories p of
             Inr v \<Rightarrow> (Return [(''categories'', str_list v)], cs')
           | Inl e \<Rightarrow> (Raise (ToolError (''Categories error: '' @ str e)), cs'))
      | (Inl e, cs') \<Rightarrow> (Raise (ToolError (''Categories error: '' @ str e)), cs'))"

definition get_url :: "provider \<Rightarrow> WikipediaPageInput \<Rightarrow> calls \<Rightarrow> outcome \<times> calls" where
  "get_url prov inp cs =
     (case call_page prov (page inp) cs of
        (Inr p, cs') \<Rightarrow>
          (case url p of
             Inr v \<Rightarrow> (Return [(''url'', JStr v)], cs')
           | Inl e \<Rightarrow> (Raise (ToolError (''URL error: '' @ str e)), cs'))
      | (Inl e, cs') \<Rightarrow> (Raise (ToolError (''URL error: '' @ str e)), cs'))"

definition get_title :: "provider \<Rightarrow> WikipediaPageInput \<Rightarrow> calls \<Rightarrow> outcome \<times> calls" where
  "get_title prov inp cs =
     (case call_page prov (page inp) cs of
        (Inr p, cs') \<Rightarrow>
          (case title p of
             Inr v \<Rightarrow> (Return [(''title'', JStr v)], cs')
           | Inl e \<Rightarrow> (Raise (ToolError (''Title error: '' @ str e)), cs'))
      | (Inl e, cs') \<Rightarrow> (Raise (ToolError (''Title error: '' @ str e)), cs'))"

definition get_page_id :: "provider \<Rightarrow> WikipediaPageInput \<Rightarrow> calls \<Rightarrow> outcome \<times> calls" where
  "get_page_id prov inp cs =
     (case call_page prov (page inp) cs of
        (Inr p, cs') \<Rightarrow>
          (case pageid p of
             Inr v \<Rightarrow> (Return [(''page_id'', JStr v)], cs')
           | Inl e \<Rightarrow> (Raise (ToolError (''Page ID error: '' @ str e)), cs'))
      | (Inl e, cs') \<Rightarrow> (Raise (ToolError (''Page ID error: '' @ str e)), cs'))"

definition search_pages :: "provider \<Rightarrow> WikipediaSearchInput \<Rightarrow> calls \<Rightarrow> outcome \<times> calls" where
  "search_pages prov inp cs =
     (case call_search prov (query inp) cs of
        (Inr v, cs') \<Rightarrow> (Return [(''results'', str_list v)], cs')
      | (Inl e, cs') \<Rightarrow> (Raise (ToolError (''Search error: '' @ str e)), cs'))"

text \<open>
  \<^verbatim>\<open>check_page_exists\<close> sets \<^verbatim>\<open>exists = True\<close>, calls
  \<^verbatim>\<open>wikipedia.page\<close> once and drops the page; the handler for
  \<^verbatim>\<open>PageError\<close> comes first and sets \<^verbatim>\<open>exists = False\<close>, the handler for
  \<^verbatim>\<open>Exception\<close> raises; the \<^verbatim>\<open>return\<close> follows the \<^verbatim>\<open>try\<close>.
\<close>

definition check_page_exists :: "provider \<Rightarrow> WikipediaPageInput \<Rightarrow> calls \<Rightarrow> outcome \<times> calls" where
  "check_page_exists prov inp cs =
     (let exists = True in
      case call_page prov (page inp) cs of
        (Inr p, cs') \<Rightarrow> (Return [(''exists'', JBool exists)], cs')
      | (Inl e, cs') \<Rightarrow>
          if is_PageError e then
            (let exists = False in (Return [(''exists'', JBool exists)], cs'))
          else (Raise (ToolError (''Existence check error: '' @ str e)), cs'))"

definition disambiguation_options :: "provider \<Rightarrow> WikipediaPageInput \<Rightarrow> calls \<Rightarrow> outcome \<times> calls" where
  "disambiguation_options prov inp cs =
     (case call_page prov (page inp) cs of
        (Inr p, cs') \<Rightarrow>
          (Return [(''disambiguation'', JBool False), (''options'', str_list [])], cs')
      | (Inl e, cs') \<Rightarrow>
          (case e of
             DisambiguationError m opts \<Rightarrow>
               (Return [(''disambiguation'', JBool True), (''options'', str_list opts)], cs')
           | _ \<Rightarrow> (Raise (ToolError (''Disambiguation check error: '' @ str e)), cs')))"

section \<open>Validation and dispatch\<close>

text \<open>
  A tool receives the parsed JSON object for its parameter \<^verbatim>\<open>input\<close>, a
  dictionary from field names to JSON values. The schema classes declare one field
  each, required (\<^verbatim>\<open>Field(...)\<close>) and of type \<^verbatim>\<open>str\<close>, with no
  further constraint (no minimum length, no pattern). Validation by the schema
  therefore succeeds exactly when the field is present and holds a JSON string (a
  number, a boolean, null, an array or an object is not converted to a string), and
  builds the request record from it; other keys are ignored. The tool body runs only
  on a validated record.
\<close>

type_synonym arguments = "string \<rightharpoonup> json"

fun is_JStr :: "json \<Rightarrow> bool" where
  "is_JStr (JStr s) = True"
| "is_JStr v = False"

definition validate_page_input :: "arguments \<Rightarrow> WikipediaPageInput option" where
  "validate_page_input args =
     (case args ''page'' of
        Some (JStr s) \<Rightarrow> Some \<lparr>page = s\<rparr>
      | _ \<Rightarrow> None)"

definition validate_search_input :: "arguments \<Rightarrow> WikipediaSearchInput option" where
  "validate_search_input args =
     (case args ''query'' of
        Some (JStr s) \<Rightarrow> Some \<lparr>query = s\<rparr>
      | _ \<Rightarrow> None)"

text \<open>The registered tool names.\<close>

datatype tool =
    Get_summary
  | Get_content
  | Get_html
  | Get_images
  | Get_links
  | Get_references
  | Get_categories
  | Get_url
  | Get_title
  | Get_page_id
  | Search_pages
  | Check_page_exists
  | Disambiguation_options

text \<open>
  What the caller of a tool sees: the input was refused by validation and the body did
  not run, or the body ran and ended with its outcome.
\<close>

datatype response = Invalid | Completed outcome

definition with_page_input ::
  "(WikipediaPageInput \<Rightarrow> calls \<Rightarrow> outcome \<times> calls) \<Rightarrow> arguments \<Rightarrow> calls \<Rightarrow> response \<times> calls" where
  "with_page_input body args cs =
     (case validate_page_input args of
        None \<Rightarrow> (Invalid, cs)
      | Some inp \<Rightarrow> (case body inp cs of (out, cs') \<Rightarrow> (Completed out, cs')))"

definition with_search_input ::
  "(WikipediaSearchInput \<Rightarrow> calls \<Rightarrow> outcome \<times> calls) \<Rightarrow> arguments \<Rightarrow> calls \<Rightarrow> response \<times> calls" where
  "with_search_input body args cs =
     (case validate_search_input args of
        None \<Rightarrow> (Invalid, cs)
      | Some inp \<Rightarrow> (case body inp cs of (out, cs') \<Rightarrow> (Completed out, cs')))"

fun call_tool :: "provider \<Rightarrow> tool \<Rightarrow> arguments \<Rightarrow> calls \<Rightarrow> response \<times> calls" where
  "call_tool prov Get_summary = with_page_input (get_summary prov)"
| "call_tool prov Get_content = with_page_input (get_content prov)"
| "call_tool prov Get_html = with_page_input (get_html prov)"
| "call_tool prov Get_images = with_page_input (get_images prov)"
| "call_tool prov Get_links = with_page_input (get_links prov)"
| "call_tool prov Get_references = with_page_input (get_references prov)"
| "call_tool prov Get_categories = with_page_input (get_categories prov)"
| "call_tool prov Get_url = with_page_input (get_url prov)"
| "call_tool prov Get_title = with_page_input (get_title prov)"
| "call_tool prov Get_page_id = with_page_input (get_page_id prov)"
| "call_tool prov Search_pages = with_search_input (search_pages prov)"
| "call_tool prov Check_page_exists = with_page_input (check_page_exists prov)"
| "call_tool prov Disambiguation_options = with_page_input (disambiguation_options prov)"

section \<open>Vocabulary of the properties\<close>

text \<open>The required field of a tool's input schema.\<close>

fun field :: "tool \<Rightarrow> string" where
  "field Search_pages = ''query''"
| "field t = ''page''"

text \<open>The module function a tool calls first, applied to the request's field.\<close>

fun lookup :: "tool \<Rightarrow> string \<Rightarrow> call" where
  "lookup Get_summary s = Summary_call s"
| "lookup Search_pages s = Search_call s"
| "lookup t s = Page_call s"

text \<open>The exception that first call raises, if it raises.\<close>

definition raised :: "exn + 'a \<Rightarrow> exn option" where
  "raised r = (case r of Inl e \<Rightarrow> Some e | Inr v \<Rightarrow> None)"

fun lookup_exn :: "provider \<Rightarrow> tool \<Rightarrow> string \<Rightarrow> exn option" where
  "lookup_exn prov Get_summary s = raised (wikipedia_summary prov s)"
| "lookup_exn prov Search_pages s = raised (wikipedia_search prov s)"
| "lookup_exn prov t s = raised (wikipedia_page prov s)"

text \<open>
  What a tool does with the page object once the lookup has returned it: a method
  call or an attribute read that may raise in turn; the two tools that only test the
  lookup do nothing with it.
\<close>

fun page_step_exn :: "tool \<Rightarrow> WikipediaPage \<Rightarrow> exn option" where
  "page_step_exn Get_content p = raised (content p)"
| "page_step_exn Get_html p = raised (html p)"
| "page_step_exn Get_images p = raised (images p)"
| "page_step_exn Get_links p = raised (links p)"
| "page_step_exn Get_references p = raised (references p)"
| "page_step_exn Get_categories p = raised (categories p)"
| "page_step_exn Get_url p = raised (url p)"
| "page_step_exn Get_title p = raised (title p)"
| "page_step_exn Get_page_id p = raised (pageid p)"
| "page_step_exn t p = None"

text \<open>The first exception the provider raises in the course of a tool, if any.\<close>

definition provider_exn :: "provider \<Rightarrow> tool \<Rightarrow> string \<Rightarrow> exn option" where
  "provider_exn prov t s =
     (case lookup_exn prov t s of
        Some e \<Rightarrow> Some e
      | None \<Rightarrow>
          (case wikipedia_page prov s of
             Inr p \<Rightarrow> page_step_exn t p
           | Inl e \<Rightarrow> None))"

text \<open>The error kinds a tool recovers from instead of reporting them.\<close>

fun recovered :: "tool \<Rightarrow> exn \<Rightarrow> bool" where
  "recovered Check_page_exists e = is_PageError e"
| "recovered Disambiguation_options e = is_DisambiguationError e"
| "recovered t e = False"

text \<open>The domain label that starts a tool's error message.\<close>

fun label :: "tool \<Rightarrow> string" where
  "label Get_summary = ''Summary error: ''"
| "label Get_content = ''Content error: ''"
| "label Get_html = ''HTML error: ''"
| "label Get_images = ''Images error: ''"
| "label Get_links = ''Links error: ''"
| "label Get_references = ''References error: ''"
| "label Get_categories = ''Categories error: ''"
| "label Get_url = ''URL error: ''"
| "label Get_title = ''Title error: ''"
| "label Get_page_id = ''Page ID error: ''"
| "label Search_pages = ''Search error: ''"
| "label Check_page_exists = ''Existence check error: ''"
| "label Disambiguation_options = ''Disambiguation check error: ''"

text \<open>
  The result shapes of the catalog: the keys of a tool's dictionary, in order, and the
  type of the value under each key.
\<close>

datatype shape = A_string | A_boolean | A_string_list

fun is_JBool :: "json \<Rightarrow> bool" where
  "is_JBool (JBool b) = True"
| "is_JBool v = False"

fun is_str_array :: "json \<Rightarrow> bool" where
  "is_str_array (JArr xs) = list_all is_JStr xs"
| "is_str_array v = False"

fun has_shape :: "shape \<Rightarrow> json \<Rightarrow> bool" where
  "has_shape A_string v = is_JStr v"
| "has_shape A_boolean v = is_JBool v"
| "has_shape A_string_list v = is_str_array v"

fun schema :: "tool \<Rightarrow> (string \<times> shape) list" where
  "schema Get_summary = [(''summary'', A_string)]"
| "schema Get_content = [(''content'', A_string)]"
| "schema Get_html = [(''html'', A_string)]"
| "schema Get_images = [(''images'', A_string_list)]"
| "schema Get_links = [(''links'', A_string_list)]"
| "schema Get_references = [(''references'', A_string_list)]"
| "schema Get_categories = [(''categories'', A_string_list)]"
| "schema Get_url = [(''url'', A_string)]"
| "schema Get_title = [(''title'', A_string)]"
| "schema Get_page_id = [(''page_id'', A_string)]"
| "schema Search_pages = [(''results'', A_string_list)]"
| "schema Check_page_exists = [(''exists'', A_boolean)]"
| "schema Disambiguation_options =
     [(''disambiguation'', A_boolean), (''options'', A_string_list)]"

definition well_formed :: "tool \<Rightarrow> result \<Rightarrow> bool" where
  "well_formed t d =
     (map fst d = map fst (schema t) \<and> list_all2 has_shape (map snd (schema t)) (map snd d))"

text \<open>A call of one of the three module functions, as opposed to a method of a page.\<close>

fun is_lookup :: "call \<Rightarrow> bool" where
  "is_lookup Html_call = False"
| "is_lookup c = True"

section \<open>A concrete provider\<close>

text \<open>
  A small provider to evaluate the tools on: one page that exists, one that exists with
  an empty summary, an ambiguous title, an ambiguous title whose error lists no
  candidate, a title on which the lookup times out, and no page under any other title.
\<close>

definition einstein :: WikipediaPage where
  "einstein =
     \<lparr>content = Inr ''Albert Einstein was a theoretical physicist.'',
      html = Inr ''<p>Albert Einstein</p>'',
      images = Inr [''https://upload.wikimedia.org/einstein.jpg''],
      links = Inr [''Physics'', ''Ulm''],
      references = Inr [''https://www.nobelprize.org''],
      categories = Inr [''1879 births''],
      url = Inr ''https://en.wikipedia.org/wiki/Albert_Einstein'',
      title = Inr ''Albert Einstein'',
      pageid = Inr ''736''\<rparr>"

definition blank :: WikipediaPage where
  "blank =
     \<lparr>content = Inr [],
      html = Inl (OtherException ''render failed''),
      images = Inr [],
      links = Inr [],
      references = Inr [],
      categories = Inr [],
      url = Inr ''https://en.wikipedia.org/wiki/Blank'',
      title = Inr ''Blank'',
      pageid = Inr ''42''\<rparr>"

definition demo :: provider where
  "demo =
     \<lparr>wikipedia_summary = (\<lambda>t.
        if t = ''Albert Einstein'' then Inr ''German-born physicist.''
        else if t = ''Blank'' then Inr []
        else if t = ''Mercury'' then
          Inl (DisambiguationError ''Mercury may refer to several pages''
                 [''Mercury (planet)'', ''Mercury (element)''])
        else if t = ''Nothing'' then Inl (DisambiguationError ''Nothing may refer to'' [])
        else if t = ''Slow'' then Inl (OtherException ''timed out'')
        else Inl (PageError ''no such page'')),
      wikipedia_page = (\<lambda>t.
        if t = ''Albert Einstein'' then Inr einstein
        else if t = ''Blank'' then Inr blank
        else if t = ''Mercury'' then
          Inl (DisambiguationError ''Mercury may refer to several pages''
                 [''Mercury (planet)'', ''Mercury (element)''])
        else if t = ''Nothing'' then Inl (DisambiguationError ''Nothing may refer to'' [])
        else if t = ''Slow'' then Inl (OtherException ''timed out'')
        else Inl (PageError ''no such page'')),
      wikipedia_search = (\<lambda>q.
        if q = ''Einstein'' then Inr [''Albert Einstein'']
        else if q = ''Slow'' then Inl (OtherException ''timed out'')
        else Inr [])\<rparr>"

section \<open>Basic facts\<close>

lemma is_PageError_iff: "is_PageError e \<longleftrightarrow> (\<exists>m. e = PageError m)"
  by (cases e) simp_all

lemma is_DisambiguationError_iff:
  "is_DisambiguationError e \<longleftrightarrow> (\<exists>m opts. e = DisambiguationError m opts)"
  by (cases e) simp_all

lemma is_ToolError_iff: "is_ToolError e \<longleftrightarrow> (\<exists>m. e = ToolError m)"
  by (cases e) simp_all

lemma validate_page_input_Some:
  "args ''page'' = Some (JStr s) \<Longrightarrow> validate_page_input args = Some \<lparr>page = s\<rparr>"
  by (simp add: validate_page_input_def)

lemma validate_search_input_Some:
  "args ''query'' = Some (JStr s) \<Longrightarrow> validate_search_input args = Some \<lparr>query = s\<rparr>"
  by (simp add: validate_search_input_def)

lemmas tool_defs =
  get_summary_def get_content_def get_html_def get_images_def get_links_def
  get_references_def get_categories_def get_url_def get_title_def get_page_id_def
  search_pages_def check_page_exists_def disambiguation_options_def
  call_summary_def call_page_def call_search_def call_html_def

lemmas dispatch_defs =
  with_page_input_def with_search_input_def

lemma is_str_array_str_list: "is_str_array (str_list xs)"
  by (induction xs) (simp_all add: str_list_def)

text \<open>On a valid request the calls a tool adds to the record are fixed by the tool.\<close>

lemma call_tool_valid_calls:
  assumes "args (field t) = Some (JStr s)"
  shows "snd (call_tool prov t args cs) =
     cs @ lookup t s #
       (if t = Get_html \<and> lookup_exn prov t s = None then [Html_call] else [])"
  using assms
  by (cases t)
    (simp_all add: dispatch_defs validate_page_input_Some validate_search_input_Some
       tool_defs raised_def split: sum.splits exn.splits)

lemma call_tool_valid_Completed:
  assumes "args (field t) = Some (JStr s)"
  shows "\<exists>out. fst (call_tool prov t args cs) = Completed out"
  using assms
  by (cases t)
    (simp_all add: dispatch_defs validate_page_input_Some validate_search_input_Some
       split: prod.splits)

section \<open>Existence check\<close>

text \<open>
  Claim C1. For every page title, \<^verbatim>\<open>check_page_exists\<close> returns
  \<^verbatim>\<open>{"exists": False}\<close> if and only if the provider's page lookup raises
  \<^verbatim>\<open>PageError\<close>; if the lookup succeeds it returns \<^verbatim>\<open>{"exists": True}\<close>;
  and on any other exception of the provider it raises \<^verbatim>\<open>ToolError\<close> (message
  \<^verbatim>\<open>Existence check error: \<close> followed by the provider's message) and returns no
  boolean.
\<close>

theorem check_page_exists_false_iff_not_found:
  "(fst (check_page_exists prov inp cs) = Return [(''exists'', JBool False)]
      \<longleftrightarrow> (\<exists>m. wikipedia_page prov (page inp) = Inl (PageError m)))
   \<and> ((\<exists>p. wikipedia_page prov (page inp) = Inr p)
      \<longrightarrow> fst (check_page_exists prov inp cs) = Return [(''exists'', JBool True)])
   \<and> (\<forall>e. wikipedia_page prov (page inp) = Inl e \<and> \<not> is_PageError e
      \<longrightarrow> fst (check_page_exists prov inp cs)
            = Raise (ToolError (''Existence check error: '' @ str e)))"
  by (auto simp: check_page_exists_def call_page_def is_PageError_iff split: sum.splits)

theorem check_page_exists_false_iff_not_found_witness:
  "fst (check_page_exists demo \<lparr>page = ''XYZNOPAGEQQQ123''\<rparr> [])
     = Return [(''exists'', JBool False)]
   \<and> fst (check_page_exists demo \<lparr>page = ''Albert Einstein''\<rparr> [])
     = Return [(''exists'', JBool True)]
   \<and> fst (check_page_exists demo \<lparr>page = ''Slow''\<rparr> [])
     = Raise (ToolError ''Existence check error: timed out'')"
proof -
  have missing:
    "\<exists>m. wikipedia_page demo (page \<lparr>page = ''XYZNOPAGEQQQ123''\<rparr>) = Inl (PageError m)"
    by (simp add: demo_def)
  have found: "\<exists>p. wikipedia_page demo (page \<lparr>page = ''Albert Einstein''\<rparr>) = Inr p"
    by (simp add: demo_def)
  have slow:
    "wikipedia_page demo (page \<lparr>page = ''Slow''\<rparr>) = Inl (OtherException ''timed out'')
     \<and> \<not> is_PageError (OtherException ''timed out'')"
    by (simp add: demo_def)
  from missing
    check_page_exists_false_iff_not_found [of demo "\<lparr>page = ''XYZNOPAGEQQQ123''\<rparr>" "[]"]
  have a: "fst (check_page_exists demo \<lparr>page = ''XYZNOPAGEQQQ123''\<rparr> [])
     = Return [(''exists'', JBool False)]"
    by blast
  from found
    check_page_exists_false_iff_not_found [of demo "\<lparr>page = ''Albert Einstein''\<rparr>" "[]"]
  have b: "fst (check_page_exists demo \<lparr>page = ''Albert Einstein''\<rparr> [])
     = Return [(''exists'', JBool True)]"
    by blast
  from slow check_page_exists_false_iff_not_found [of demo "\<lparr>page = ''Slow''\<rparr>" "[]"]
  have c: "fst (check_page_exists demo \<lparr>page = ''Slow''\<rparr> [])
     = Raise (ToolError (''Existence check error: '' @ str (OtherException ''timed out'')))"
    by blast
  from a b c show ?thesis by simp
qed

text \<open>
  Claim C10. For every page title on which the provider's page lookup raises
  \<^verbatim>\<open>DisambiguationError\<close>, \<^verbatim>\<open>check_page_exists\<close> raises \<^verbatim>\<open>ToolError\<close>
  with a message that starts \<^verbatim>\<open>Existence check error: \<close>; it returns neither
  \<^verbatim>\<open>{"exists": True}\<close> nor \<^verbatim>\<open>{"exists": False}\<close>.
\<close>

theorem check_page_exists_ambiguous_raises:
  "wikipedia_page prov (page inp) = Inl (DisambiguationError m opts) \<Longrightarrow>
   fst (check_page_exists prov inp cs) = Raise (ToolError (''Existence check error: '' @ m))
   \<and> fst (check_page_exists prov inp cs) \<noteq> Return [(''exists'', JBool True)]
   \<and> fst (check_page_exists prov inp cs) \<noteq> Return [(''exists'', JBool False)]"
  by (simp add: check_page_exists_def call_page_def)

theorem check_page_exists_ambiguous_raises_witness:
  "fst (check_page_exists demo \<lparr>page = ''Mercury''\<rparr> [])
     = Raise (ToolError ''Existence check error: Mercury may refer to several pages'')"
proof -
  have "wikipedia_page demo (page \<lparr>page = ''Mercury''\<rparr>)
      = Inl (DisambiguationError ''Mercury may refer to several pages''
               [''Mercury (planet)'', ''Mercury (element)''])"
    by (simp add: demo_def)
  from check_page_exists_ambiguous_raises [OF this, of "[]"] show ?thesis
    by simp
qed

section \<open>Disambiguation\<close>

text \<open>
  Claim C2, as amended. For every page title, \<^verbatim>\<open>disambiguation_options\<close> returns
  \<^verbatim>\<open>{"disambiguation": True, "options": ...}\<close> if and only if the provider's page
  lookup raises \<^verbatim>\<open>DisambiguationError\<close>, and the options returned are exactly the
  \<^verbatim>\<open>options\<close> of that error, unchanged (so they are non-empty exactly when the
  error lists a candidate); it returns
  \<^verbatim>\<open>{"disambiguation": False, "options": []}\<close> when the lookup succeeds; and on any
  other exception of the provider it raises \<^verbatim>\<open>ToolError\<close>.
\<close>

theorem disambiguation_options_cases:
  "((\<exists>opts. fst (disambiguation_options prov inp cs)
        = Return [(''disambiguation'', JBool True), (''options'', str_list opts)])
      \<longleftrightarrow> (\<exists>m opts. wikipedia_page prov (page inp) = Inl (DisambiguationError m opts)))
   \<and> (\<forall>m opts. wikipedia_page prov (page inp) = Inl (DisambiguationError m opts)
      \<longrightarrow> fst (disambiguation_options prov inp cs)
            = Return [(''disambiguation'', JBool True), (''options'', str_list opts)])
   \<and> ((\<exists>p. wikipedia_page prov (page inp) = Inr p)
      \<longrightarrow> fst (disambiguation_options prov inp cs)
            = Return [(''disambiguation'', JBool False), (''options'', JArr [])])
   \<and> (\<forall>e. wikipedia_page prov (page inp) = Inl e \<and> \<not> is_DisambiguationError e
      \<longrightarrow> fst (disambiguation_options prov inp cs)
            = Raise (ToolError (''Disambiguation check error: '' @ str e)))"
  by (auto simp: disambiguation_options_def call_page_def str_list_def
      split: sum.splits exn.splits)

theorem disambiguation_options_cases_witness:
  "fst (disambiguation_options demo \<lparr>page = ''Mercury''\<rparr> [])
     = Return [(''disambiguation'', JBool True),
               (''options'', JArr [JStr ''Mercury (planet)'', JStr ''Mercury (element)''])]
   \<and> fst (disambiguation_options demo \<lparr>page = ''Albert Einstein''\<rparr> [])
     = Return [(''disambiguation'', JBool False), (''options'', JArr [])]
   \<and> fst (disambiguation_options demo \<lparr>page = ''XYZNOPAGEQQQ123''\<rparr> [])
     = Raise (ToolError ''Disambiguation check error: no such page'')"
proof -
  have ambiguous:
    "wikipedia_page demo (page \<lparr>page = ''Mercury''\<rparr>)
      = Inl (DisambiguationError ''Mercury may refer to several pages''
               [''Mercury (planet)'', ''Mercury (element)''])"
    by (simp add: demo_def)
  have found: "\<exists>p. wikipedia_page demo (page \<lparr>page = ''Albert Einstein''\<rparr>) = Inr p"
    by (simp add: demo_def)
  have missing:
    "wikipedia_page demo (page \<lparr>page = ''XYZNOPAGEQQQ123''\<rparr>) = Inl (PageError ''no such page'')
     \<and> \<not> is_DisambiguationError (PageError ''no such page'')"
    by (simp add: demo_def)
  from ambiguous disambiguation_options_cases [of demo "\<lparr>page = ''Mercury''\<rparr>" "[]"]
  have a: "fst (disambiguation_options demo \<lparr>page = ''Mercury''\<rparr> [])
     = Return [(''disambiguation'', JBool True),
               (''options'', str_list [''Mercury (planet)'', ''Mercury (element)''])]"
    by blast
  from found disambiguation_options_cases [of demo "\<lparr>page = ''Albert Einstein''\<rparr>" "[]"]
  have b: "fst (disambiguation_options demo \<lparr>page = ''Albert Einstein''\<rparr> [])
     = Return [(''disambiguation'', JBool False), (''options'', JArr [])]"
    by blast
  from missing disambiguation_options_cases [of demo "\<lparr>page = ''XYZNOPAGEQQQ123''\<rparr>" "[]"]
  have c: "fst (disambiguation_options demo \<lparr>page = ''XYZNOPAGEQQQ123''\<rparr> [])
     = Raise (ToolError (''Disambiguation check error: '' @ str (PageError ''no such page'')))"
    by blast
  from a b c show ?thesis by (simp add: str_list_def)
qed

text \<open>
  The claim as first stated asks for a non-empty list whenever the provider raises
  \<^verbatim>\<open>DisambiguationError\<close>. The handler returns \<^verbatim>\<open>e.options\<close> as it is: on an
  error that lists no candidate the tool returns \<^verbatim>\<open>True\<close> with an empty list.
\<close>

theorem disambiguation_options_empty_counterexample:
  "wikipedia_page demo ''Nothing'' = Inl (DisambiguationError ''Nothing may refer to'' [])
   \<and> fst (disambiguation_options demo \<lparr>page = ''Nothing''\<rparr> [])
       = Return [(''disambiguation'', JBool True), (''options'', JArr [])]"
  by (simp add: disambiguation_options_def call_page_def str_list_def demo_def)

section \<open>Search\<close>

text \<open>
  Claim C7. For every query on which the provider's search returns the empty list,
  \<^verbatim>\<open>search_pages\<close> returns \<^verbatim>\<open>{"results": []}\<close> and raises nothing.
\<close>

theorem search_pages_no_match:
  "wikipedia_search prov (query inp) = Inr [] \<Longrightarrow>
   fst (search_pages prov inp cs) = Return [(''results'', JArr [])]"
  by (simp add: search_pages_def call_search_def str_list_def)

theorem search_pages_no_match_witness:
  "fst (search_pages demo \<lparr>query = ''a string guaranteed to match nothing''\<rparr> [])
     = Return [(''results'', JArr [])]"
proof -
  have "wikipedia_search demo (query \<lparr>query = ''a string guaranteed to match nothing''\<rparr>)
      = Inr []"
    by (simp add: demo_def)
  from search_pages_no_match [OF this, of "[]"] show ?thesis .
qed

section \<open>Provider calls per invocation\<close>

text \<open>
  Claim C3, as amended. For every valid request, every tool of the catalog calls
  exactly one module function of the provider (\<^verbatim>\<open>wikipedia.summary\<close>,
  \<^verbatim>\<open>wikipedia.page\<close> or \<^verbatim>\<open>wikipedia.search\<close>) exactly once per invocation,
  on the request's field; \<^verbatim>\<open>check_page_exists\<close> and
  \<^verbatim>\<open>disambiguation_options\<close> are no exception: they make that one call, not
  two. The only further call is the method call \<^verbatim>\<open>.html()\<close> that
  \<^verbatim>\<open>get_html\<close> makes on the page once its lookup has succeeded.
\<close>

theorem one_lookup_per_invocation:
  assumes "args (field t) = Some (JStr s)"
  shows "snd (call_tool prov t args cs) =
       cs @ lookup t s #
         (if t = Get_html \<and> lookup_exn prov t s = None then [Html_call] else [])
     \<and> length (filter is_lookup (drop (length cs) (snd (call_tool prov t args cs)))) = 1"
proof -
  have l: "is_lookup (lookup t s)" by (cases t) simp_all
  from assms have "snd (call_tool prov t args cs) =
       cs @ lookup t s #
         (if t = Get_html \<and> lookup_exn prov t s = None then [Html_call] else [])"
    by (rule call_tool_valid_calls)
  with l show ?thesis by simp
qed

theorem one_lookup_per_invocation_witness:
  "snd (call_tool demo Check_page_exists [''page'' \<mapsto> JStr ''Albert Einstein''] [])
     = [Page_call ''Albert Einstein'']
   \<and> snd (call_tool demo Get_html [''page'' \<mapsto> JStr ''Albert Einstein''] [])
     = [Page_call ''Albert Einstein'', Html_call]"
proof -
  have a: "[''page'' \<mapsto> JStr ''Albert Einstein''] (field Check_page_exists)
      = Some (JStr ''Albert Einstein'')" by simp
  have b: "[''page'' \<mapsto> JStr ''Albert Einstein''] (field Get_html)
      = Some (JStr ''Albert Einstein'')" by simp
  from a b
    one_lookup_per_invocation
      [of "[''page'' \<mapsto> JStr ''Albert Einstein'']" Check_page_exists
          "''Albert Einstein''" demo "[]"]
    one_lookup_per_invocation
      [of "[''page'' \<mapsto> JStr ''Albert Einstein'']" Get_html
          "''Albert Einstein''" demo "[]"]
  show ?thesis by (simp add: demo_def raised_def)
qed

text \<open>
  The claim as first stated gives \<^verbatim>\<open>check_page_exists\<close> and
  \<^verbatim>\<open>disambiguation_options\<close> exactly two provider calls each. Each makes one.
\<close>

theorem check_page_exists_one_call_counterexample:
  "snd (check_page_exists demo \<lparr>page = ''Albert Einstein''\<rparr> [])
     = [Page_call ''Albert Einstein'']
   \<and> length (snd (check_page_exists demo \<lparr>page = ''Albert Einstein''\<rparr> [])) \<noteq> 2
   \<and> snd (disambiguation_options demo \<lparr>page = ''Mercury''\<rparr> []) = [Page_call ''Mercury'']
   \<and> length (snd (disambiguation_options demo \<lparr>page = ''Mercury''\<rparr> [])) \<noteq> 2"
  by (simp add: check_page_exists_def disambiguation_options_def call_page_def demo_def)

section \<open>Input validation\<close>

text \<open>
  Claim C4, as amended. For every tool, the field of the request (\<^verbatim>\<open>page\<close>, or
  \<^verbatim>\<open>query\<close> for \<^verbatim>\<open>search_pages\<close>) must be a string, and any string will
  do: a request whose field is a string, the empty string included, passes validation,
  and the string is handed unchanged to the tool's provider lookup.
\<close>

theorem any_string_reaches_provider:
  assumes "args (field t) = Some (JStr s)"
  shows "fst (call_tool prov t args cs) \<noteq> Invalid
     \<and> snd (call_tool prov t args cs) ! length cs = lookup t s"
proof -
  from assms obtain out where "fst (call_tool prov t args cs) = Completed out"
    using call_tool_valid_Completed [of args t s prov cs] by blast
  moreover from assms have "snd (call_tool prov t args cs) =
       cs @ lookup t s #
         (if t = Get_html \<and> lookup_exn prov t s = None then [Html_call] else [])"
    by (rule call_tool_valid_calls)
  ultimately show ?thesis by simp
qed

theorem any_string_reaches_provider_witness:
  "fst (call_tool demo Get_summary [''page'' \<mapsto> JStr []] []) \<noteq> Invalid
   \<and> snd (call_tool demo Get_summary [''page'' \<mapsto> JStr []] []) ! 0 = Summary_call []
   \<and> fst (call_tool demo Search_pages [''query'' \<mapsto> JStr []] []) \<noteq> Invalid
   \<and> snd (call_tool demo Search_pages [''query'' \<mapsto> JStr []] []) ! 0 = Search_call []"
proof -
  have a: "[''page'' \<mapsto> JStr []] (field Get_summary) = Some (JStr [])" by simp
  have b: "[''query'' \<mapsto> JStr []] (field Search_pages) = Some (JStr [])" by simp
  from a b
    any_string_reaches_provider [of "[''page'' \<mapsto> JStr []]" Get_summary "[]" demo "[]"]
    any_string_reaches_provider [of "[''query'' \<mapsto> JStr []]" Search_pages "[]" demo "[]"]
  show ?thesis by simp
qed

text \<open>
  The claim as first stated has the empty string refused before the provider is
  reached. The schema puts no constraint on the string: the request
  \<^verbatim>\<open>{"page": ""}\<close> is valid, and the provider is called on the empty title.
\<close>

theorem empty_string_accepted_counterexample:
  "call_tool demo Get_summary [''page'' \<mapsto> JStr []] []
     = (Completed (Raise (ToolError ''Summary error: no such page'')), [Summary_call []])
   \<and> call_tool demo Search_pages [''query'' \<mapsto> JStr []] []
     = (Completed (Return [(''results'', JArr [])]), [Search_call []])"
  by (simp add: dispatch_defs validate_page_input_def validate_search_input_def
      get_summary_def search_pages_def call_summary_def call_search_def str_list_def demo_def)

text \<open>
  Claim C5. For every tool, a request whose required field is missing, or holds a
  value that is not a string, fails validation before the tool body runs: the caller
  gets the validation failure and no provider call is made.
\<close>

theorem invalid_input_makes_no_call:
  assumes "args (field t) = None \<or> (\<exists>v. args (field t) = Some v \<and> \<not> is_JStr v)"
  shows "call_tool prov t args cs = (Invalid, cs)"
proof -
  from assms have "\<not> (\<exists>s. args (field t) = Some (JStr s))" by auto
  then show ?thesis
    by (cases t)
      (auto simp: dispatch_defs validate_page_input_def validate_search_input_def
         split: option.splits json.splits)
qed

theorem invalid_input_makes_no_call_witness:
  "call_tool demo Get_title Map.empty [] = (Invalid, [])
   \<and> call_tool demo Search_pages [''query'' \<mapsto> JNum 42] [] = (Invalid, [])
   \<and> call_tool demo Check_page_exists [''title'' \<mapsto> JStr ''Albert Einstein''] []
     = (Invalid, [])"
proof -
  have a: "Map.empty (field Get_title) = None
      \<or> (\<exists>v. Map.empty (field Get_title) = Some v \<and> \<not> is_JStr v)" by simp
  have b: "[''query'' \<mapsto> JNum 42] (field Search_pages) = None
      \<or> (\<exists>v. [''query'' \<mapsto> JNum 42] (field Search_pages) = Some v \<and> \<not> is_JStr v)"
    by simp
  have c: "[''title'' \<mapsto> JStr ''Albert Einstein''] (field Check_page_exists) = None
      \<or> (\<exists>v. [''title'' \<mapsto> JStr ''Albert Einstein''] (field Check_page_exists) = Some v
            \<and> \<not> is_JStr v)" by simp
  from a b c
    invalid_input_makes_no_call [of Map.empty Get_title demo "[]"]
    invalid_input_makes_no_call [of "[''query'' \<mapsto> JNum 42]" Search_pages demo "[]"]
    invalid_input_makes_no_call
      [of "[''title'' \<mapsto> JStr ''Albert Einstein'']" Check_page_exists demo "[]"]
  show ?thesis by blast
qed

section \<open>Error translation\<close>

text \<open>
  Claim C6. For every tool and every exception of the provider that the tool does not
  recover from, the exception is caught in the tool and raised again as
  \<^verbatim>\<open>ToolError\<close>, with the message made of the tool's label followed by the
  provider's message (\<^verbatim>\<open>Summary error: ...\<close> for \<^verbatim>\<open>get_summary\<close>,
  \<^verbatim>\<open>Search error: ...\<close> for \<^verbatim>\<open>search_pages\<close>); and whatever a tool raises is
  such a \<^verbatim>\<open>ToolError\<close>: no other exception leaves a tool.
\<close>

theorem provider_failure_becomes_tool_error:
  assumes "args (field t) = Some (JStr s)"
  shows "(\<forall>e. provider_exn prov t s = Some e \<and> \<not> recovered t e
            \<longrightarrow> fst (call_tool prov t args cs)
                  = Completed (Raise (ToolError (label t @ str e))))
     \<and> (\<forall>x. fst (call_tool prov t args cs) = Completed (Raise x)
            \<longrightarrow> (\<exists>e. provider_exn prov t s = Some e \<and> \<not> recovered t e
                      \<and> x = ToolError (label t @ str e)))"
  using assms
  by (cases t)
    (auto simp add: dispatch_defs validate_page_input_Some validate_search_input_Some
       tool_defs raised_def provider_exn_def is_PageError_iff
       split: sum.splits exn.splits)

theorem provider_failure_becomes_tool_error_witness:
  "fst (call_tool demo Get_summary [''page'' \<mapsto> JStr ''Slow''] [])
     = Completed (Raise (ToolError ''Summary error: timed out''))
   \<and> fst (call_tool demo Search_pages [''query'' \<mapsto> JStr ''Slow''] [])
     = Completed (Raise (ToolError ''Search error: timed out''))
   \<and> fst (call_tool demo Get_html [''page'' \<mapsto> JStr ''Blank''] [])
     = Completed (Raise (ToolError ''HTML error: render failed''))"
proof -
  have a: "[''page'' \<mapsto> JStr ''Slow''] (field Get_summary) = Some (JStr ''Slow'')"
    by simp
  have a': "provider_exn demo Get_summary ''Slow'' = Some (OtherException ''timed out'')
      \<and> \<not> recovered Get_summary (OtherException ''timed out'')"
    by (simp add: provider_exn_def demo_def raised_def)
  have b: "[''query'' \<mapsto> JStr ''Slow''] (field Search_pages) = Some (JStr ''Slow'')"
    by simp
  have b': "provider_exn demo Search_pages ''Slow'' = Some (OtherException ''timed out'')
      \<and> \<not> recovered Search_pages (OtherException ''timed out'')"
    by (simp add: provider_exn_def demo_def raised_def)
  have c: "[''page'' \<mapsto> JStr ''Blank''] (field Get_html) = Some (JStr ''Blank'')"
    by simp
  have c': "provider_exn demo Get_html ''Blank'' = Some (OtherException ''render failed'')
      \<and> \<not> recovered Get_html (OtherException ''render failed'')"
    by (simp add: provider_exn_def demo_def blank_def raised_def)
  from a a' provider_failure_becomes_tool_error
    [of "[''page'' \<mapsto> JStr ''Slow'']" Get_summary "''Slow''" demo "[]"]
  have "fst (call_tool demo Get_summary [''page'' \<mapsto> JStr ''Slow''] [])
      = Completed (Raise (ToolError (label Get_summary @ str (OtherException ''timed out''))))"
    by blast
  moreover
  from b b' provider_failure_becomes_tool_error
    [of "[''query'' \<mapsto> JStr ''Slow'']" Search_pages "''Slow''" demo "[]"]
  have "fst (call_tool demo Search_pages [''query'' \<mapsto> JStr ''Slow''] [])
      = Completed (Raise (ToolError (label Search_pages @ str (OtherException ''timed out''))))"
    by blast
  moreover
  from c c' provider_failure_becomes_tool_error
    [of "[''page'' \<mapsto> JStr ''Blank'']" Get_html "''Blank''" demo "[]"]
  have "fst (call_tool demo Get_html [''page'' \<mapsto> JStr ''Blank''] [])
      = Completed (Raise (ToolError (label Get_html @ str (OtherException ''render failed''))))"
    by blast
  ultimately show ?thesis by simp
qed

section \<open>The first failure is final\<close>

text \<open>
  Claim C9. For every tool and every valid request, when the tool's first provider
  call raises, that call is the only one the tool makes (no retry, no further call),
  and the tool ends in one of two ways: it raises \<^verbatim>\<open>ToolError\<close> with the
  provider's message and returns nothing, or, for the one error kind that
  \<^verbatim>\<open>check_page_exists\<close> and \<^verbatim>\<open>disambiguation_options\<close> each recover from,
  it returns its complete result. In every case a tool ends either with a dictionary
  that has all the keys of its result shape, with values of the right type, or with a
  \<^verbatim>\<open>ToolError\<close>: an outcome is one or the other, and no dictionary is partial.
\<close>

theorem first_failure_is_final:
  assumes "args (field t) = Some (JStr s)"
  shows "(\<forall>e. lookup_exn prov t s = Some e \<longrightarrow>
            snd (call_tool prov t args cs) = cs @ [lookup t s]
            \<and> (\<not> recovered t e \<longrightarrow>
                 fst (call_tool prov t args cs)
                   = Completed (Raise (ToolError (label t @ str e))))
            \<and> (recovered t e \<longrightarrow>
                 (\<exists>d. fst (call_tool prov t args cs) = Completed (Return d)
                      \<and> well_formed t d)))
     \<and> (\<exists>out. fst (call_tool prov t args cs) = Completed out
            \<and> (case out of Return d \<Rightarrow> well_formed t d | Raise x \<Rightarrow> is_ToolError x))"
  using assms
  by (cases t)
    (auto simp add: dispatch_defs validate_page_input_Some validate_search_input_Some
       tool_defs raised_def well_formed_def is_str_array_str_list is_PageError_iff
       split: sum.splits exn.splits)

theorem first_failure_is_final_witness:
  "call_tool demo Get_content [''page'' \<mapsto> JStr ''Slow''] []
     = (Completed (Raise (ToolError ''Content error: timed out'')), [Page_call ''Slow''])
   \<and> snd (call_tool demo Check_page_exists [''page'' \<mapsto> JStr ''XYZNOPAGEQQQ123''] [])
     = [Page_call ''XYZNOPAGEQQQ123'']"
proof -
  have a: "[''page'' \<mapsto> JStr ''Slow''] (field Get_content) = Some (JStr ''Slow'')"
    by simp
  have a': "lookup_exn demo Get_content ''Slow'' = Some (OtherException ''timed out'')
      \<and> \<not> recovered Get_content (OtherException ''timed out'')"
    by (simp add: demo_def raised_def)
  have b: "[''page'' \<mapsto> JStr ''XYZNOPAGEQQQ123''] (field Check_page_exists)
      = Some (JStr ''XYZNOPAGEQQQ123'')"
    by simp
  have b': "lookup_exn demo Check_page_exists ''XYZNOPAGEQQQ123''
      = Some (PageError ''no such page'')"
    by (simp add: demo_def raised_def)
  from a a' first_failure_is_final
    [of "[''page'' \<mapsto> JStr ''Slow'']" Get_content "''Slow''" demo "[]"]
  have "snd (call_tool demo Get_content [''page'' \<mapsto> JStr ''Slow''] [])
        = [] @ [lookup Get_content ''Slow'']
     \<and> fst (call_tool demo Get_content [''page'' \<mapsto> JStr ''Slow''] [])
        = Completed (Raise (ToolError (label Get_content @ str (OtherException ''timed out''))))"
    by blast
  moreover
  from b b' first_failure_is_final
    [of "[''page'' \<mapsto> JStr ''XYZNOPAGEQQQ123'']" Check_page_exists
        "''XYZNOPAGEQQQ123''" demo "[]"]
  have "snd (call_tool demo Check_page_exists [''page'' \<mapsto> JStr ''XYZNOPAGEQQQ123''] [])
      = [] @ [lookup Check_page_exists ''XYZNOPAGEQQQ123'']"
    by blast
  ultimately show ?thesis by (simp add: prod_eq_iff)
qed

section \<open>Page attributes\<close>

text \<open>
  Claim C8, as amended. For every page title on which the provider's lookups succeed,
  \<^verbatim>\<open>get_summary\<close> returns exactly the provider's summary, and
  \<^verbatim>\<open>get_title\<close>, \<^verbatim>\<open>get_url\<close> and \<^verbatim>\<open>get_page_id\<close> return exactly the
  \<^verbatim>\<open>title\<close>, \<^verbatim>\<open>url\<close> and \<^verbatim>\<open>pageid\<close> of the one page object the
  provider resolves the title to. The tools hand these values on as they are and check
  nothing about them, so a value is non-empty exactly when the provider's is. Calling
  any of \<^verbatim>\<open>get_title\<close>, \<^verbatim>\<open>get_url\<close>, \<^verbatim>\<open>get_page_id\<close> a second time
  with the same title, after the first call and against the same provider, yields the
  same result.
\<close>

theorem page_tools_pass_through:
  assumes "wikipedia_summary prov (page inp) = Inr s"
    and "wikipedia_page prov (page inp) = Inr p"
    and "title p = Inr ti" and "url p = Inr u" and "pageid p = Inr i"
  shows "fst (get_summary prov inp cs) = Return [(''summary'', JStr s)]
     \<and> fst (get_title prov inp cs) = Return [(''title'', JStr ti)]
     \<and> fst (get_url prov inp cs) = Return [(''url'', JStr u)]
     \<and> fst (get_page_id prov inp cs) = Return [(''page_id'', JStr i)]
     \<and> fst (get_title prov inp (snd (get_title prov inp cs))) = fst (get_title prov inp cs)
     \<and> fst (get_url prov inp (snd (get_url prov inp cs))) = fst (get_url prov inp cs)
     \<and> fst (get_page_id prov inp (snd (get_page_id prov inp cs)))
         = fst (get_page_id prov inp cs)"
  using assms by (simp add: tool_defs)

theorem page_tools_pass_through_witness:
  "fst (get_summary demo \<lparr>page = ''Albert Einstein''\<rparr> [])
     = Return [(''summary'', JStr ''German-born physicist.'')]
   \<and> fst (get_title demo \<lparr>page = ''Albert Einstein''\<rparr> [])
     = Return [(''title'', JStr ''Albert Einstein'')]
   \<and> fst (get_url demo \<lparr>page = ''Albert Einstein''\<rparr> [])
     = Return [(''url'', JStr ''https://en.wikipedia.org/wiki/Albert_Einstein'')]
   \<and> fst (get_page_id demo \<lparr>page = ''Albert Einstein''\<rparr> [])
     = Return [(''page_id'', JStr ''736'')]
   \<and> fst (get_title demo \<lparr>page = ''Albert Einstein''\<rparr>
            (snd (get_title demo \<lparr>page = ''Albert Einstein''\<rparr> [])))
     = fst (get_title demo \<lparr>page = ''Albert Einstein''\<rparr> [])"
proof -
  have a: "wikipedia_summary demo (page \<lparr>page = ''Albert Einstein''\<rparr>)
      = Inr ''German-born physicist.''"
    by (simp add: demo_def)
  have b: "wikipedia_page demo (page \<lparr>page = ''Albert Einstein''\<rparr>) = Inr einstein"
    by (simp add: demo_def)
  have c: "title einstein = Inr ''Albert Einstein''"
    by (simp add: einstein_def)
  have d: "url einstein = Inr ''https://en.wikipedia.org/wiki/Albert_Einstein''"
    by (simp add: einstein_def)
  have e: "pageid einstein = Inr ''736''"
    by (simp add: einstein_def)
  from page_tools_pass_through [OF a b c d e, of "[]"] show ?thesis
    by blast
qed

text \<open>
  The claim as first stated promises non-empty values for every page that exists. A
  page that exists and has no summary text gets \<^verbatim>\<open>{"summary": ""}\<close>.
\<close>

theorem get_summary_empty_counterexample:
  "wikipedia_page demo ''Blank'' = Inr blank
   \<and> wikipedia_summary demo ''Blank'' = Inr []
   \<and> fst (get_summary demo \<lparr>page = ''Blank''\<rparr> []) = Return [(''summary'', JStr [])]"
  by (simp add: get_summary_def call_summary_def demo_def)

end
